theory Spec2Isabelle
  imports Complex_Main
begin

section \<open>The treasurer server: request handler and storage schema\<close>

text \<open>
  A shallow embedding of \<^verbatim>\<open>archive/legacy-versions/server.py\<close>: the handler class
  \<^verbatim>\<open>TreasurerHandler\<close> (\<^verbatim>\<open>do_GET\<close>, \<^verbatim>\<open>do_POST\<close>) and \<^verbatim>\<open>setup_database\<close>.
  The handler works on a world made of the file system below the working directory,
  what the operating system says to an operation on a path, the memory the process
  can get, and the unread bytes of the connection; the schema code works on a
  relational store. The library calls the source makes (\<^verbatim>\<open>int\<close>, \<^verbatim>\<open>rfile.read\<close>,
  \<^verbatim>\<open>Path.mkdir\<close>, \<^verbatim>\<open>open\<close>, \<^verbatim>\<open>strftime\<close>, \<^verbatim>\<open>json.dumps\<close>, SQLite's
  \<^verbatim>\<open>CREATE TABLE\<close> and \<^verbatim>\<open>INSERT\<close>) are modelled with the exceptions they raise.
\<close>

subsection \<open>Bytes, exceptions, outcomes\<close>

text \<open>A HOL \<^typ>\<open>char\<close> is eight bits, so a byte string is a \<^typ>\<open>char list\<close>.\<close>

type_synonym bytes = "char list"

datatype py_error =
    TypeError
  | ValueError
  | OverflowError
  | MemoryError
  | FileExistsError
  | IsADirectoryError
  | PermissionError
  | OSError

text \<open>A library call returns, raises, or does not come back.\<close>

datatype 'a io = Returns 'a | Raises py_error | Blocks

subsection \<open>\<^verbatim>\<open>int(s)\<close> on a header value\<close>

text \<open>
  Python's \<^verbatim>\<open>int\<close> on a string strips surrounding white space, accepts one
  optional sign, then decimal digits in which single underscores may separate digits.
  Anything else raises \<^verbatim>\<open>ValueError\<close>, as does a literal of more than 4300 digits
  (the interpreter's default conversion limit; signs, underscores and white space
  do not count). Header text is Latin-1; of its characters, \<^verbatim>\<open>int\<close> strips the
  code points listed in \<open>is_py_space\<close> (the separators \<open>0x1C\<close> to \<open>0x1F\<close>
  are not among them).
\<close>

definition is_py_space :: "char \<Rightarrow> bool" where
  "is_py_space c \<longleftrightarrow>
     (of_char c :: nat) \<in> {9, 10, 11, 12, 13, 32, 133, 160}"

definition py_strip :: "string \<Rightarrow> string" where
  "py_strip s = rev (dropWhile is_py_space (rev (dropWhile is_py_space s)))"

definition is_digit :: "char \<Rightarrow> bool" where
  "is_digit c \<longleftrightarrow> 48 \<le> (of_char c :: nat) \<and> (of_char c :: nat) \<le> 57"

definition digit_val :: "char \<Rightarrow> nat" where
  "digit_val c = (of_char c :: nat) - 48"

text \<open>
  \<open>digits_value acc cs\<close> reads the rest of a literal after a digit: each further
  character is a digit, or an underscore followed by a digit.
\<close>

fun digits_value :: "nat \<Rightarrow> string \<Rightarrow> nat option" where
  "digits_value acc [] = Some acc"
| "digits_value acc [c] =
     (if is_digit c then Some (10 * acc + digit_val c) else None)"
| "digits_value acc (c # d # ds) =
     (if c = CHR ''_'' then
        (if is_digit d then digits_value (10 * acc + digit_val d) ds else None)
      else if is_digit c then digits_value (10 * acc + digit_val c) (d # ds)
      else None)"

definition unsigned_value :: "string \<Rightarrow> nat option" where
  "unsigned_value s =
     (case s of
        [] \<Rightarrow> None
      | d # ds \<Rightarrow> if is_digit d then digits_value (digit_val d) ds else None)"

definition max_str_digits :: nat where
  "max_str_digits = 4300"

definition py_int_str :: "string \<Rightarrow> py_error + int" where
  "py_int_str s =
     (let t = py_strip s;
          (neg, body) =
            (case t of
               [] \<Rightarrow> (False, [])
             | c # cs \<Rightarrow>
                 if c = CHR ''-'' then (True, cs)
                 else if c = CHR ''+'' then (False, cs)
                 else (False, t))
      in if max_str_digits < length (filter is_digit body) then Inl ValueError
         else
           (case unsigned_value body of
              None \<Rightarrow> Inl ValueError
            | Some n \<Rightarrow> Inr (if neg then - int n else int n)))"

text \<open>
  \<^verbatim>\<open>self.headers['Content-Length']\<close> yields \<^verbatim>\<open>None\<close> for a header that is not
  there, and \<^verbatim>\<open>int(None)\<close> raises \<^verbatim>\<open>TypeError\<close>.
\<close>

definition py_int :: "string option \<Rightarrow> py_error + int" where
  "py_int v = (case v of None \<Rightarrow> Inl TypeError | Some s \<Rightarrow> py_int_str s)"

subsection \<open>Requests and header lookup\<close>

text \<open>
  The request line and headers are parsed by the base class before \<^verbatim>\<open>do_POST\<close>
  runs. Header names are matched without regard to case, and the first match wins.
\<close>

record request =
  path :: string
  headers :: "(string \<times> string) list"

definition lower_char :: "char \<Rightarrow> char" where
  "lower_char c =
     (case map_of (zip ''ABCDEFGHIJKLMNOPQRSTUVWXYZ'' ''abcdefghijklmnopqrstuvwxyz'') c of
        None \<Rightarrow> c
      | Some l \<Rightarrow> l)"

definition lower :: "string \<Rightarrow> string" where
  "lower s = map lower_char s"

definition headers_get :: "(string \<times> string) list \<Rightarrow> string \<Rightarrow> string option" where
  "headers_get hs name = map_of (map (\<lambda>(k, v). (lower k, v)) hs) (lower name)"

subsection \<open>The clock and \<^verbatim>\<open>strftime("%Y%m%d_%H%M%S")\<close>\<close>

text \<open>
  \<^verbatim>\<open>datetime.now()\<close> is an input of the handler: the local wall-clock time at the
  moment of the call, with its microseconds. The format string prints the year in
  four digits (the years of the clock have four) and every other field in two, and
  leaves the microseconds out.
\<close>

record datetime =
  year :: nat
  month :: nat
  day :: nat
  hour :: nat
  minute :: nat
  second :: nat
  microsecond :: nat

definition digit_char :: "nat \<Rightarrow> char" where
  "digit_char n = ''0123456789'' ! (n mod 10)"

definition pad2 :: "nat \<Rightarrow> string" where
  "pad2 n = [digit_char (n div 10), digit_char n]"

definition pad4 :: "nat \<Rightarrow> string" where
  "pad4 n = [digit_char (n div 1000), digit_char (n div 100),
             digit_char (n div 10), digit_char n]"

definition strftime :: "datetime \<Rightarrow> string" where
  "strftime t =
     pad4 (year t) @ pad2 (month t) @ pad2 (day t) @ ''_'' @
     pad2 (hour t) @ pad2 (minute t) @ pad2 (second t)"

definition uploads_dir :: string where
  "uploads_dir = ''uploads''"

text \<open>\<^verbatim>\<open>uploads_dir / f"informe_{timestamp}.jpg"\<close>, as \<^verbatim>\<open>str\<close> prints it.\<close>

definition file_path :: "string \<Rightarrow> string" where
  "file_path timestamp = uploads_dir @ ''/'' @ ''informe_'' @ timestamp @ ''.jpg''"

subsection \<open>The file system and the connection\<close>

text \<open>
  Paths are relative to the working directory, and symbolic links are followed: a
  path stands for what it leads to. It leads to a directory, to a regular file, to
  nothing although a link is there (\<open>Dangling\<close>), or to something else, a FIFO, a
  socket or a device (\<open>Special\<close>).
\<close>

datatype node = Dir | File bytes | Dangling | Special

type_synonym filesystem = "string \<rightharpoonup> node"

text \<open>
  The world a request is handled in. \<open>os_says\<close> is the part of the operating system
  that the kinds of the nodes do not explain: for a path, whether an operation of
  this program on it goes ahead, is refused with an error (permissions, a read-only
  or full volume, a socket that cannot be opened) or hangs (a FIFO with no reader).
  \<open>memory\<close> is the size of the largest buffer the process can get. \<open>rfile\<close> holds
  the bytes of the connection that are still unread, and \<open>rfile_eof\<close> tells whether
  the peer has closed its sending side after them.
\<close>

record world =
  fs :: filesystem
  os_says :: "string \<Rightarrow> unit io"
  memory :: nat
  rfile :: bytes
  rfile_eof :: bool

text \<open>
  \<^verbatim>\<open>mkdir(exist_ok=True)\<close> creates the directory, accepts an existing directory, and
  raises \<^verbatim>\<open>FileExistsError\<close> when the path is there and is no directory.
\<close>

definition mkdir_exist_ok :: "string \<Rightarrow> world \<Rightarrow> world io" where
  "mkdir_exist_ok p w =
     (case os_says w p of
        Raises e \<Rightarrow> Raises e
      | Blocks \<Rightarrow> Blocks
      | Returns u \<Rightarrow>
          (case fs w p of
             None \<Rightarrow> Returns (w\<lparr>fs := (fs w)(p \<mapsto> Dir)\<rparr>)
           | Some Dir \<Rightarrow> Returns w
           | Some (File d) \<Rightarrow> Raises FileExistsError
           | Some Dangling \<Rightarrow> Raises FileExistsError
           | Some Special \<Rightarrow> Raises FileExistsError))"

text \<open>
  \<^verbatim>\<open>with open(p, 'wb') as f: f.write(data)\<close>. Opening creates the file or empties
  it (through a dangling link too) and raises \<^verbatim>\<open>IsADirectoryError\<close> on a directory;
  the write and the close store the whole payload. Bytes written to a FIFO, socket
  or device are not kept under the path. When the system refuses, the model leaves
  the old node in place (a write that fails half way may in fact leave a shorter
  file; no statement below depends on it).
\<close>

definition open_wb_write :: "string \<Rightarrow> bytes \<Rightarrow> world \<Rightarrow> world io" where
  "open_wb_write p data w =
     (case os_says w p of
        Raises e \<Rightarrow> Raises e
      | Blocks \<Rightarrow> Blocks
      | Returns u \<Rightarrow>
          (case fs w p of
             None \<Rightarrow> Returns (w\<lparr>fs := (fs w)(p \<mapsto> File data)\<rparr>)
           | Some Dir \<Rightarrow> Raises IsADirectoryError
           | Some (File d) \<Rightarrow> Returns (w\<lparr>fs := (fs w)(p \<mapsto> File data)\<rparr>)
           | Some Dangling \<Rightarrow> Returns (w\<lparr>fs := (fs w)(p \<mapsto> File data)\<rparr>)
           | Some Special \<Rightarrow> Returns w))"

text \<open>
  \<^verbatim>\<open>rfile\<close> is a buffered reader over the socket and has no timeout. The size of
  \<^verbatim>\<open>read\<close> must fit a machine word (\<^verbatim>\<open>OverflowError\<close> otherwise); a size below
  \<open>-1\<close> raises \<^verbatim>\<open>ValueError\<close>; \<^verbatim>\<open>read(-1)\<close> reads up to the end of the stream.
  For a size \<open>n \<ge> 0\<close> the reader first gets a buffer of \<open>n\<close> bytes, which raises
  \<^verbatim>\<open>OverflowError\<close> when \<open>n\<close> and the header of a bytes object exceed the word, and
  \<^verbatim>\<open>MemoryError\<close> when the process cannot get that much. Then it returns \<open>n\<close>
  bytes once they are there; at end of stream it returns what is left; while the
  peer keeps the connection open without sending, it does not return.
\<close>

definition ssize_max :: int where
  "ssize_max = 2 ^ 63 - 1"

definition bytes_header :: int where
  "bytes_header = 33"

definition rfile_read :: "int \<Rightarrow> world \<Rightarrow> (bytes \<times> world) io" where
  "rfile_read n w =
     (if n < - ssize_max - 1 \<or> ssize_max < n then Raises OverflowError
      else if n < - 1 then Raises ValueError
      else if n = - 1 then
        (if \<not> rfile_eof w then Blocks
         else if memory w < length (rfile w) then Raises MemoryError
         else Returns (rfile w, w\<lparr>rfile := []\<rparr>))
      else if ssize_max - bytes_header < n then Raises OverflowError
      else if memory w < nat n then Raises MemoryError
      else if nat n \<le> length (rfile w) then
        Returns (take (nat n) (rfile w), w\<lparr>rfile := drop (nat n) (rfile w)\<rparr>)
      else if rfile_eof w then Returns (rfile w, w\<lparr>rfile := []\<rparr>)
      else Blocks)"

subsection \<open>Responses\<close>

text \<open>
  What the handler puts on the wire: the status of \<^verbatim>\<open>send_response\<close>, the headers
  it adds with \<^verbatim>\<open>send_header\<close>, and the bytes written to \<^verbatim>\<open>wfile\<close>. (The base
  class adds its own \<^verbatim>\<open>Server\<close> and \<^verbatim>\<open>Date\<close> headers to every response.)
\<close>

record response =
  status :: nat
  resp_headers :: "(string \<times> string) list"
  body :: bytes

text \<open>
  A handler call answers, or lets an exception escape (the server then closes the
  connection without an answer), or never returns.
\<close>

datatype outcome = Responded response | Raised py_error | Blocked

fun responded_with :: "nat \<Rightarrow> outcome \<Rightarrow> bool" where
  "responded_with code (Responded r) = (status r = code)"
| "responded_with code (Raised e) = False"
| "responded_with code Blocked = False"

text \<open>
  \<^verbatim>\<open>json.dumps\<close> of a dictionary of strings, with its default separators. A quote
  or a backslash inside a string is escaped with a backslash. The strings of this
  program are made of ASCII letters, digits and punctuation, so the escapes of
  control and non-ASCII characters are left out.
\<close>

definition json_escape :: "char \<Rightarrow> string" where
  "json_escape c = (if c = CHR 0x22 \<or> c = CHR 0x5C then [CHR 0x5C, c] else [c])"

definition json_string :: "string \<Rightarrow> string" where
  "json_string s = [CHR 0x22] @ concat (map json_escape s) @ [CHR 0x22]"

fun json_items :: "(string \<times> string) list \<Rightarrow> string" where
  "json_items [] = []"
| "json_items [(k, v)] = json_string k @ '': '' @ json_string v"
| "json_items ((k, v) # kv # kvs) =
     json_string k @ '': '' @ json_string v @ '', '' @ json_items (kv # kvs)"

definition json_dumps :: "(string \<times> string) list \<Rightarrow> string" where
  "json_dumps d = ''{'' @ json_items d @ ''}''"

definition not_found :: response where
  "not_found = \<lparr>status = 404, resp_headers = [], body = []\<rparr>"

definition success :: "string \<Rightarrow> response" where
  "success p =
     \<lparr>status = 200,
      resp_headers = [(''Content-type'', ''application/json'')],
      body = json_dumps [(''status'', ''success''), (''file'', p)]\<rparr>"

subsection \<open>\<^verbatim>\<open>TreasurerHandler\<close>\<close>

text \<open>
  \<^verbatim>\<open>do_GET\<close> hands the request to the base class's static file serving, here the
  parameter \<open>base_do_GET\<close>, after replacing the root path.
\<close>

definition do_GET :: "(request \<Rightarrow> world \<Rightarrow> 'r) \<Rightarrow> request \<Rightarrow> world \<Rightarrow> 'r" where
  "do_GET base_do_GET req w =
     base_do_GET (if path req = ''/'' then req\<lparr>path := ''/index.html''\<rparr> else req) w"

text \<open>
  \<^verbatim>\<open>do_POST\<close>, statement by statement. Nothing in it catches an exception, so the
  first one that is raised ends the call, with the world as it is by then.
\<close>

definition do_POST :: "datetime \<Rightarrow> request \<Rightarrow> world \<Rightarrow> outcome \<times> world" where
  "do_POST now req w =
     (if path req = ''/api/upload'' then
        (case py_int (headers_get (headers req) ''Content-Length'') of
           Inl e \<Rightarrow> (Raised e, w)
         | Inr content_length \<Rightarrow>
             (case rfile_read content_length w of
                Blocks \<Rightarrow> (Blocked, w)
              | Raises e \<Rightarrow> (Raised e, w)
              | Returns (post_data, w1) \<Rightarrow>
                  (let timestamp = strftime now in
                   case mkdir_exist_ok uploads_dir w1 of
                     Blocks \<Rightarrow> (Blocked, w1)
                   | Raises e \<Rightarrow> (Raised e, w1)
                   | Returns w2 \<Rightarrow>
                       (case open_wb_write (file_path timestamp) post_data w2 of
                          Blocks \<Rightarrow> (Blocked, w2)
                        | Raises e \<Rightarrow> (Raised e, w2)
                        | Returns w3 \<Rightarrow>
                            (Responded (success (file_path timestamp)), w3)))))
      else (Responded not_found, w))"

subsection \<open>The relational store\<close>

text \<open>
  \<^verbatim>\<open>setup_database\<close> sends two \<^verbatim>\<open>CREATE TABLE IF NOT EXISTS\<close> statements to an
  SQLite file. The store is modelled as far as those statements and a plain
  \<^verbatim>\<open>INSERT\<close> with bound values go: a table has its declaration, its rows and the
  counter that \<^verbatim>\<open>AUTOINCREMENT\<close> keeps.

  A value is what the Python binding hands over: \<^verbatim>\<open>None\<close>, an \<^verbatim>\<open>int\<close>, a
  \<^verbatim>\<open>float\<close>, a \<^verbatim>\<open>str\<close> or \<^verbatim>\<open>bytes\<close>. A float is the real number it stands for,
  or an infinity (the binding turns a NaN into \<^verbatim>\<open>NULL\<close>); the rounding of
  floating-point arithmetic is not modelled.
\<close>

datatype sql_double = Finite real | PlusInfinity | MinusInfinity

datatype sql_value =
    SqlNull
  | SqlInteger int
  | SqlReal sql_double
  | SqlText string
  | SqlBlob bytes

datatype sql_error = OperationalError string | IntegrityError string | BindOverflow

text \<open>
  How the engine reads a text as a number and prints a number as text is its own
  business; both conversions are parameters.
\<close>

datatype sql_number = NumInteger int | NumReal sql_double

record engine =
  text_to_number :: "string \<Rightarrow> sql_number option"
  number_to_text :: "sql_number \<Rightarrow> string"

definition int64_min :: int where
  "int64_min = - (2 ^ 63)"

definition int64_max :: int where
  "int64_max = 2 ^ 63 - 1"

text \<open>The binding refuses an \<^verbatim>\<open>int\<close> that does not fit 64 bits.\<close>

fun bindable :: "sql_value \<Rightarrow> bool" where
  "bindable (SqlInteger i) = (int64_min \<le> i \<and> i \<le> int64_max)"
| "bindable SqlNull = True"
| "bindable (SqlReal x) = True"
| "bindable (SqlText s) = True"
| "bindable (SqlBlob b) = True"

subsubsection \<open>Type affinity\<close>

text \<open>
  A column has the affinity its declared type gives it, and a value is converted
  accordingly before it is stored. \<^verbatim>\<open>NULL\<close> and blobs are never converted.
\<close>

datatype affinity = IntegerAff | TextAff | BlobAff | RealAff | NumericAff

fun is_prefix :: "string \<Rightarrow> string \<Rightarrow> bool" where
  "is_prefix [] s = True"
| "is_prefix (a # as) [] = False"
| "is_prefix (a # as) (b # bs) = (a = b \<and> is_prefix as bs)"

fun contains :: "string \<Rightarrow> string \<Rightarrow> bool" where
  "contains [] t = (t = [])"
| "contains (c # cs) t = (is_prefix t (c # cs) \<or> contains cs t)"

definition affinity_of :: "string \<Rightarrow> affinity" where
  "affinity_of type =
     (let t = lower type
      in if contains t ''int'' then IntegerAff
         else if contains t ''char'' \<or> contains t ''clob'' \<or> contains t ''text''
         then TextAff
         else if contains t ''blob'' \<or> t = [] then BlobAff
         else if contains t ''real'' \<or> contains t ''floa'' \<or> contains t ''doub''
         then RealAff
         else NumericAff)"

fun integer_if_exact :: "sql_double \<Rightarrow> sql_value" where
  "integer_if_exact (Finite x) =
     (if x = of_int \<lfloor>x\<rfloor> \<and> int64_min < \<lfloor>x\<rfloor> \<and> \<lfloor>x\<rfloor> < int64_max
      then SqlInteger \<lfloor>x\<rfloor> else SqlReal (Finite x))"
| "integer_if_exact PlusInfinity = SqlReal PlusInfinity"
| "integer_if_exact MinusInfinity = SqlReal MinusInfinity"

fun numeric_value :: "sql_number \<Rightarrow> sql_value" where
  "numeric_value (NumInteger i) =
     (if int64_min \<le> i \<and> i \<le> int64_max then SqlInteger i
      else SqlReal (Finite (of_int i)))"
| "numeric_value (NumReal x) = integer_if_exact x"

fun real_value :: "sql_number \<Rightarrow> sql_value" where
  "real_value (NumInteger i) = SqlReal (Finite (of_int i))"
| "real_value (NumReal x) = SqlReal x"

fun apply_affinity :: "engine \<Rightarrow> affinity \<Rightarrow> sql_value \<Rightarrow> sql_value" where
  "apply_affinity lib a SqlNull = SqlNull"
| "apply_affinity lib a (SqlBlob b) = SqlBlob b"
| "apply_affinity lib a (SqlInteger i) =
     (case a of
        TextAff \<Rightarrow> SqlText (number_to_text lib (NumInteger i))
      | RealAff \<Rightarrow> SqlReal (Finite (of_int i))
      | IntegerAff \<Rightarrow> SqlInteger i
      | NumericAff \<Rightarrow> SqlInteger i
      | BlobAff \<Rightarrow> SqlInteger i)"
| "apply_affinity lib a (SqlReal x) =
     (case a of
        TextAff \<Rightarrow> SqlText (number_to_text lib (NumReal x))
      | IntegerAff \<Rightarrow> integer_if_exact x
      | NumericAff \<Rightarrow> integer_if_exact x
      | RealAff \<Rightarrow> SqlReal x
      | BlobAff \<Rightarrow> SqlReal x)"
| "apply_affinity lib a (SqlText s) =
     (case a of
        IntegerAff \<Rightarrow>
          (case text_to_number lib s of None \<Rightarrow> SqlText s | Some n \<Rightarrow> numeric_value n)
      | NumericAff \<Rightarrow>
          (case text_to_number lib s of None \<Rightarrow> SqlText s | Some n \<Rightarrow> numeric_value n)
      | RealAff \<Rightarrow>
          (case text_to_number lib s of None \<Rightarrow> SqlText s | Some n \<Rightarrow> real_value n)
      | TextAff \<Rightarrow> SqlText s
      | BlobAff \<Rightarrow> SqlText s)"

subsubsection \<open>Declarations\<close>

datatype col_default = NoDefault | CurrentTimestamp

record column =
  col_name :: string
  col_type :: string
  col_not_null :: bool
  col_autoincrement :: bool
  col_default :: col_default

record foreign_key =
  fk_column :: string
  fk_table :: string
  fk_parent_column :: string

record table_def =
  td_name :: string
  td_columns :: "column list"
  td_foreign_keys :: "foreign_key list"

type_synonym row = "(string \<times> sql_value) list"

record table =
  tdef :: table_def
  rows :: "row list"
  seq :: int

type_synonym database = "(string \<times> table) list"

text \<open>
  A connection carries the engine behind it and the setting of
  \<^verbatim>\<open>PRAGMA foreign_keys\<close>. SQLite checks foreign keys only on a connection that has
  switched the setting on; a connection starts with it off (the default of the
  library), and the setting is not stored in the database file. \<^verbatim>\<open>sqlite3.connect\<close>
  is the only call the program makes on a connection before it runs its statements.
\<close>

record connection =
  foreign_keys :: bool
  library :: engine

definition connect :: "engine \<Rightarrow> connection" where
  "connect lib = \<lparr>foreign_keys = False, library = lib\<rparr>"

definition pragma_foreign_keys :: "bool \<Rightarrow> connection \<Rightarrow> connection" where
  "pragma_foreign_keys b conn = conn\<lparr>foreign_keys := b\<rparr>"

text \<open>The engine compares the names of tables and columns without regard to case.\<close>

definition find_table :: "database \<Rightarrow> string \<Rightarrow> (string \<times> table) option" where
  "find_table db name = find (\<lambda>e. lower (fst e) = lower name) db"

definition create_table :: "bool \<Rightarrow> table_def \<Rightarrow> database \<Rightarrow> sql_error + database" where
  "create_table if_not_exists td db =
     (case find_table db (td_name td) of
        Some e \<Rightarrow>
          if if_not_exists then Inr db
          else Inl (OperationalError ''table already exists'')
      | None \<Rightarrow> Inr (db @ [(td_name td, \<lparr>tdef = td, rows = [], seq = 0\<rparr>)]))"

definition plain_column :: "string \<Rightarrow> string \<Rightarrow> bool \<Rightarrow> column" where
  "plain_column name type not_null =
     \<lparr>col_name = name, col_type = type, col_not_null = not_null,
      col_autoincrement = False, col_default = NoDefault\<rparr>"

definition id_column :: column where
  "id_column =
     \<lparr>col_name = ''id'', col_type = ''INTEGER'', col_not_null = False,
      col_autoincrement = True, col_default = NoDefault\<rparr>"

definition created_at_column :: column where
  "created_at_column =
     \<lparr>col_name = ''created_at'', col_type = ''TIMESTAMP'', col_not_null = False,
      col_autoincrement = False, col_default = CurrentTimestamp\<rparr>"

definition churches_def :: table_def where
  "churches_def =
     \<lparr>td_name = ''churches'',
      td_columns =
        [id_column,
         plain_column ''name'' ''TEXT'' True,
         plain_column ''city'' ''TEXT'' True,
         plain_column ''pastor'' ''TEXT'' True,
         plain_column ''phone'' ''TEXT'' False,
         created_at_column],
      td_foreign_keys = []\<rparr>"

definition reports_def :: table_def where
  "reports_def =
     \<lparr>td_name = ''reports'',
      td_columns =
        [id_column,
         plain_column ''church_id'' ''INTEGER'' True,
         plain_column ''month'' ''TEXT'' True,
         plain_column ''tithes'' ''REAL'' True,
         plain_column ''offerings'' ''REAL'' True,
         plain_column ''national_contribution'' ''REAL'' True,
         plain_column ''bank_receipt'' ''TEXT'' False,
         plain_column ''deposit_date'' ''DATE'' False,
         plain_column ''photo_path'' ''TEXT'' False,
         created_at_column],
      td_foreign_keys =
        [\<lparr>fk_column = ''church_id'', fk_table = ''churches'',
          fk_parent_column = ''id''\<rparr>]\<rparr>"

text \<open>
  \<^verbatim>\<open>setup_database\<close>: connect, run the two statements, commit, close. Opening the
  connection changes no setting, and commit and close leave the tables as they are.
\<close>

definition setup_database :: "database \<Rightarrow> sql_error + database" where
  "setup_database db =
     (case create_table True churches_def db of
        Inl e \<Rightarrow> Inl e
      | Inr db1 \<Rightarrow> create_table True reports_def db1)"

fun setup_database_times :: "nat \<Rightarrow> database \<Rightarrow> sql_error + database" where
  "setup_database_times 0 db = Inr db"
| "setup_database_times (Suc n) db =
     (case setup_database db of
        Inl e \<Rightarrow> Inl e
      | Inr db' \<Rightarrow> setup_database_times n db')"

subsection \<open>Inserting a row\<close>

text \<open>
  \<^verbatim>\<open>INSERT INTO t (columns) VALUES (values)\<close> on a connection, the values bound as
  parameters. Of two values given for one column the first counts. A column that
  is left out takes its default. The \<^verbatim>\<open>INTEGER PRIMARY KEY\<close> column is the row
  id: it can also be named \<^verbatim>\<open>rowid\<close>, \<^verbatim>\<open>oid\<close> or \<^verbatim>\<open>_rowid_\<close>, of several values
  given for it the last counts, it must convert to an integer, and when it is left
  out or \<^verbatim>\<open>NULL\<close> it takes the number after the counter, unless the counter has
  reached the largest one. \<^verbatim>\<open>NOT NULL\<close> and the uniqueness of the key are always
  checked; a foreign key is checked only when the connection has the setting on.
  A statement that fails leaves the store as it was.
\<close>

definition lookup :: "row \<Rightarrow> string \<Rightarrow> sql_value" where
  "lookup r c = (case map_of r c of None \<Rightarrow> SqlNull | Some v \<Rightarrow> v)"

definition given :: "row \<Rightarrow> string \<Rightarrow> sql_value option" where
  "given vals c = map_of (map (\<lambda>(k, v). (lower k, v)) vals) (lower c)"

definition rowid_names :: "string list" where
  "rowid_names = [''rowid'', ''oid'', ''_rowid_'']"

definition names_column :: "table_def \<Rightarrow> string \<Rightarrow> bool" where
  "names_column td k \<longleftrightarrow> lower k \<in> set (map (\<lambda>c. lower (col_name c)) (td_columns td))"

definition names_key :: "table_def \<Rightarrow> string \<Rightarrow> bool" where
  "names_key td k \<longleftrightarrow>
     lower k \<in> set (map (\<lambda>c. lower (col_name c)) (filter col_autoincrement (td_columns td)))
     \<or> (lower k \<in> set rowid_names \<and> \<not> names_column td k)"

definition given_key :: "table_def \<Rightarrow> row \<Rightarrow> sql_value option" where
  "given_key td vals =
     (case filter (\<lambda>e. names_key td (fst e)) vals of
        [] \<Rightarrow> None
      | e # es \<Rightarrow> Some (snd (last (e # es))))"

definition next_key :: "table \<Rightarrow> sql_error + int" where
  "next_key t =
     (if int64_max \<le> seq t then Inl (OperationalError ''database or disk is full'')
      else Inr (seq t + 1))"

definition key_value :: "engine \<Rightarrow> table \<Rightarrow> row \<Rightarrow> sql_error + int" where
  "key_value lib t vals =
     (case given_key (tdef t) vals of
        None \<Rightarrow> next_key t
      | Some v \<Rightarrow>
          (case apply_affinity lib IntegerAff v of
             SqlNull \<Rightarrow> next_key t
           | SqlInteger i \<Rightarrow> Inr i
           | SqlReal x \<Rightarrow> Inl (IntegrityError ''datatype mismatch'')
           | SqlText s \<Rightarrow> Inl (IntegrityError ''datatype mismatch'')
           | SqlBlob b \<Rightarrow> Inl (IntegrityError ''datatype mismatch'')))"

definition fill_column :: "engine \<Rightarrow> string \<Rightarrow> int \<Rightarrow> row \<Rightarrow> column \<Rightarrow> string \<times> sql_value" where
  "fill_column lib now key vals c =
     (col_name c,
      if col_autoincrement c then SqlInteger key
      else (case given vals (col_name c) of
              Some v \<Rightarrow> apply_affinity lib (affinity_of (col_type c)) v
            | None \<Rightarrow>
                (case col_default c of
                   NoDefault \<Rightarrow> SqlNull
                 | CurrentTimestamp \<Rightarrow> SqlText now)))"

definition key_ok :: "table \<Rightarrow> row \<Rightarrow> column \<Rightarrow> bool" where
  "key_ok t r c =
     (if col_autoincrement c
      then list_all (\<lambda>r'. lookup r' (col_name c) \<noteq> lookup r (col_name c)) (rows t)
      else True)"

definition fk_ok :: "database \<Rightarrow> row \<Rightarrow> foreign_key \<Rightarrow> bool" where
  "fk_ok db r fk =
     (let v = lookup r (fk_column fk)
      in if v = SqlNull then True
         else (case find_table db (fk_table fk) of
                 None \<Rightarrow> False
               | Some e \<Rightarrow>
                   list_ex (\<lambda>pr. lookup pr (fk_parent_column fk) = v) (rows (snd e))))"

definition not_null_ok :: "row \<Rightarrow> column \<Rightarrow> bool" where
  "not_null_ok r c = (if col_not_null c then lookup r (col_name c) \<noteq> SqlNull else True)"

definition add_row :: "string \<Rightarrow> row \<Rightarrow> int \<Rightarrow> string \<times> table \<Rightarrow> string \<times> table" where
  "add_row name r key e =
     (if fst e = name
      then (fst e, (snd e)\<lparr>rows := rows (snd e) @ [r], seq := max (seq (snd e)) key\<rparr>)
      else e)"

definition insert_into ::
    "connection \<Rightarrow> string \<Rightarrow> string \<Rightarrow> row \<Rightarrow> database \<Rightarrow> sql_error + database" where
  "insert_into conn now tname vals db =
     (if \<not> list_all bindable (map snd vals) then Inl BindOverflow
      else
        (case find_table db tname of
           None \<Rightarrow> Inl (OperationalError ''no such table'')
         | Some e \<Rightarrow>
             if \<not> list_all (\<lambda>k. names_column (tdef (snd e)) k \<or> names_key (tdef (snd e)) k)
                     (map fst vals)
             then Inl (OperationalError ''no such column'')
             else
               (case key_value (library conn) (snd e) vals of
                  Inl err \<Rightarrow> Inl err
                | Inr key \<Rightarrow>
                    (let r = map (fill_column (library conn) now key vals)
                               (td_columns (tdef (snd e)))
                     in if \<not> list_all (not_null_ok r) (td_columns (tdef (snd e)))
                        then Inl (IntegrityError ''NOT NULL constraint failed'')
                        else if \<not> list_all (key_ok (snd e) r) (td_columns (tdef (snd e)))
                        then Inl (IntegrityError ''UNIQUE constraint failed'')
                        else if foreign_keys conn
                                \<and> \<not> list_all (fk_ok db r) (td_foreign_keys (tdef (snd e)))
                        then Inl (IntegrityError ''FOREIGN KEY constraint failed'')
                        else Inr (map (add_row (fst e) r key) db)))))"

text \<open>
  The states the store can reach: from the empty file, by calls of
  \<^verbatim>\<open>setup_database\<close> and by inserts on any connection.
\<close>

datatype store_op = SetupDatabase | InsertInto connection string string row

definition exec_op :: "store_op \<Rightarrow> database \<Rightarrow> sql_error + database" where
  "exec_op op db =
     (case op of
        SetupDatabase \<Rightarrow> setup_database db
      | InsertInto conn now tname vals \<Rightarrow> insert_into conn now tname vals db)"

definition apply_op :: "database \<Rightarrow> store_op \<Rightarrow> database" where
  "apply_op db op = (case exec_op op db of Inl e \<Rightarrow> db | Inr db' \<Rightarrow> db')"

definition run_ops :: "store_op list \<Rightarrow> database" where
  "run_ops ops = foldl apply_op [] ops"

definition table_rows :: "database \<Rightarrow> string \<Rightarrow> row list" where
  "table_rows db tname = (case map_of db tname of None \<Rightarrow> [] | Some t \<Rightarrow> rows t)"

definition table_defs :: "database \<Rightarrow> (string \<times> table_def) list" where
  "table_defs db = map (\<lambda>e. (fst e, tdef (snd e))) db"


subsection \<open>Properties the statements below speak about\<close>

text \<open>
  The system lets an upload at time \<open>now\<close> through: it refuses nothing at the two
  paths, the uploads path is free or a directory, and the target is free, a regular
  file or a dangling link.
\<close>

definition uploads_usable :: "datetime \<Rightarrow> world \<Rightarrow> bool" where
  "uploads_usable now w \<longleftrightarrow>
     os_says w uploads_dir = Returns ()
     \<and> os_says w (file_path (strftime now)) = Returns ()
     \<and> (fs w uploads_dir = None \<or> fs w uploads_dir = Some Dir)
     \<and> fs w (file_path (strftime now)) \<noteq> Some Dir
     \<and> fs w (file_path (strftime now)) \<noteq> Some Special"

text \<open>A buffer of \<open>n\<close> bytes can be had.\<close>

definition allocatable :: "int \<Rightarrow> world \<Rightarrow> bool" where
  "allocatable n w \<longleftrightarrow> n \<le> ssize_max - bytes_header \<and> nat n \<le> memory w"

text \<open>The three amounts of a report row: present, and (as the data model words it) not negative.\<close>

definition amounts_not_null :: "row \<Rightarrow> bool" where
  "amounts_not_null r \<longleftrightarrow>
     lookup r ''tithes'' \<noteq> SqlNull \<and> lookup r ''offerings'' \<noteq> SqlNull
     \<and> lookup r ''national_contribution'' \<noteq> SqlNull"

fun non_negative :: "sql_value \<Rightarrow> bool" where
  "non_negative (SqlInteger i) = (0 \<le> i)"
| "non_negative (SqlReal (Finite x)) = (0 \<le> x)"
| "non_negative (SqlReal PlusInfinity) = True"
| "non_negative (SqlReal MinusInfinity) = False"
| "non_negative SqlNull = False"
| "non_negative (SqlText s) = False"
| "non_negative (SqlBlob b) = False"

definition amounts_non_negative :: "row \<Rightarrow> bool" where
  "amounts_non_negative r \<longleftrightarrow>
     non_negative (lookup r ''tithes'') \<and> non_negative (lookup r ''offerings'')
     \<and> non_negative (lookup r ''national_contribution'')"

text \<open>An insert statement gives a column a value other than \<^verbatim>\<open>NULL\<close>.\<close>

definition provided :: "row \<Rightarrow> string \<Rightarrow> bool" where
  "provided vals c \<longleftrightarrow> (case given vals c of None \<Rightarrow> False | Some v \<Rightarrow> v \<noteq> SqlNull)"

definition amounts_provided :: "row \<Rightarrow> bool" where
  "amounts_provided vals \<longleftrightarrow>
     provided vals ''tithes'' \<and> provided vals ''offerings''
     \<and> provided vals ''national_contribution''"




subsection \<open>Concrete inputs\<close>

definition ex_now :: datetime where
  "ex_now = \<lparr>year = 2024, month = 3, day = 9, hour = 14, minute = 5, second = 7,
             microsecond = 120000\<rparr>"

definition ex_upload :: "string \<Rightarrow> request" where
  "ex_upload n = \<lparr>path = ''/api/upload'', headers = [(''Content-Length'', n)]\<rparr>"

definition ex_no_length :: request where
  "ex_no_length = \<lparr>path = ''/api/upload'', headers = [(''Host'', ''localhost:8000'')]\<rparr>"

definition ex_world :: "bytes \<Rightarrow> bool \<Rightarrow> world" where
  "ex_world stream eof =
     \<lparr>fs = Map.empty, os_says = (\<lambda>p. Returns ()), memory = 4096,
      rfile = stream, rfile_eof = eof\<rparr>"


text \<open>
  A stand-in for the engine's conversions. The example rows give texts to text
  columns and numbers to numeric columns, so they are never consulted.
\<close>

definition ex_engine :: engine where
  "ex_engine = \<lparr>text_to_number = (\<lambda>s. None), number_to_text = (\<lambda>n. [])\<rparr>"

definition ex_church :: row where
  "ex_church =
     [(''name'', SqlText ''Central''), (''city'', SqlText ''Asuncion''),
      (''pastor'', SqlText ''Juan'')]"

definition ex_report :: "int \<Rightarrow> sql_value \<Rightarrow> row" where
  "ex_report church tithes =
     [(''church_id'', SqlInteger church), (''month'', SqlText ''2024-03''),
      (''tithes'', tithes), (''offerings'', SqlReal (Finite 0)),
      (''national_contribution'', SqlReal (Finite 0))]"

definition ex_conn :: connection where
  "ex_conn = connect ex_engine"

definition ex_fk_conn :: connection where
  "ex_fk_conn = pragma_foreign_keys True (connect ex_engine)"

definition ex_time :: string where
  "ex_time = ''2024-03-09 14:05:07''"

definition ex_ops :: "store_op list" where
  "ex_ops =
     [SetupDatabase,
      InsertInto ex_fk_conn ex_time ''churches'' ex_church,
      InsertInto ex_fk_conn ex_time ''reports'' (ex_report 1 (SqlReal (Finite 25)))]"

section \<open>The upload handler\<close>

subsection \<open>Auxiliary facts\<close>

lemma py_int_str_error: "py_int_str s = Inl e \<Longrightarrow> e = ValueError"
  by (auto simp: py_int_str_def Let_def split: prod.splits option.splits if_splits)

lemma file_path_not_uploads_dir: "file_path t \<noteq> uploads_dir"
  by (simp add: file_path_def)

lemma rfile_read_world:
  "rfile_read n w = Returns (d, w1) \<Longrightarrow>
   fs w1 = fs w \<and> os_says w1 = os_says w \<and> memory w1 = memory w"
  by (auto simp: rfile_read_def split: if_splits)

lemma rfile_read_usable:
  "rfile_read n w = Returns (d, w1) \<Longrightarrow> uploads_usable now w1 = uploads_usable now w"
  by (simp add: uploads_usable_def rfile_read_world)

lemma mkdir_usable:
  "uploads_usable now w \<Longrightarrow>
   mkdir_exist_ok uploads_dir w =
     Returns (if fs w uploads_dir = None then w\<lparr>fs := (fs w)(uploads_dir \<mapsto> Dir)\<rparr> else w)"
  by (auto simp: uploads_usable_def mkdir_exist_ok_def)

lemma open_wb_write_usable:
  assumes "os_says w p = Returns ()" and "fs w p \<noteq> Some Dir" and "fs w p \<noteq> Some Special"
  shows "open_wb_write p data w = Returns (w\<lparr>fs := (fs w)(p \<mapsto> File data)\<rparr>)"
  using assms by (auto simp: open_wb_write_def split: option.splits node.splits)

lemma ssize_max_value: "ssize_max - bytes_header = 9223372036854775774"
  by (simp add: ssize_max_def bytes_header_def)

lemma rfile_read_prefix:
  assumes "0 \<le> n" and "nat n \<le> length (rfile w)" and "allocatable n w"
  shows "rfile_read n w =
           Returns (take (nat n) (rfile w), w\<lparr>rfile := drop (nat n) (rfile w)\<rparr>)"
proof -
  have "n \<le> ssize_max - bytes_header" and "nat n \<le> memory w"
    using assms(3) by (simp_all add: allocatable_def)
  moreover from this(1) have "n \<le> ssize_max"
    by (simp add: bytes_header_def)
  ultimately show ?thesis
    using assms(1,2) by (simp add: rfile_read_def ssize_max_def)
qed

lemma do_POST_bad_length:
  "path req = ''/api/upload'' \<Longrightarrow>
   py_int (headers_get (headers req) ''Content-Length'') = Inl e \<Longrightarrow>
   do_POST now req w = (Raised e, w)"
  by (simp add: do_POST_def)

text \<open>The successful path of \<open>do_POST\<close>, in one equation.\<close>

lemma do_POST_upload:
  assumes "path req = ''/api/upload''"
    and "py_int (headers_get (headers req) ''Content-Length'') = Inr n"
    and "rfile_read n w = Returns (post_data, w1)"
    and "uploads_usable now w"
  shows "do_POST now req w =
    (Responded (success (file_path (strftime now))),
     w1\<lparr>fs := (if fs w uploads_dir = None then (fs w)(uploads_dir \<mapsto> Dir) else fs w)
                 (file_path (strftime now) \<mapsto> File post_data)\<rparr>)"
proof -
  let ?p = "file_path (strftime now)"
  let ?f1 = "if fs w uploads_dir = None then (fs w)(uploads_dir \<mapsto> Dir) else fs w"
  let ?w2 = "if fs w1 uploads_dir = None then w1\<lparr>fs := (fs w1)(uploads_dir \<mapsto> Dir)\<rparr> else w1"
  have same: "fs w1 = fs w" "os_says w1 = os_says w"
    using rfile_read_world [OF assms(3)] by simp_all
  have usable: "uploads_usable now w1"
    using assms(3,4) by (simp add: rfile_read_usable)
  then have mk: "mkdir_exist_ok uploads_dir w1 = Returns ?w2"
    by (rule mkdir_usable)
  have f2: "fs ?w2 = ?f1" and o2: "os_says ?w2 = os_says w"
    by (simp_all add: same)
  have "os_says ?w2 ?p = Returns ()" and "fs ?w2 ?p \<noteq> Some Dir"
    and "fs ?w2 ?p \<noteq> Some Special"
    using assms(4) file_path_not_uploads_dir [of "strftime now"]
    by (simp_all add: uploads_usable_def same)
  then have wr: "open_wb_write ?p post_data ?w2
                 = Returns (?w2\<lparr>fs := (fs ?w2)(?p \<mapsto> File post_data)\<rparr>)"
    by (rule open_wb_write_usable)
  have "?w2\<lparr>fs := (fs ?w2)(?p \<mapsto> File post_data)\<rparr> = w1\<lparr>fs := ?f1(?p \<mapsto> File post_data)\<rparr>"
    by (simp add: same)
  with wr have wr': "open_wb_write ?p post_data ?w2
                     = Returns (w1\<lparr>fs := ?f1(?p \<mapsto> File post_data)\<rparr>)"
    by simp
  show ?thesis
    unfolding do_POST_def using assms(1,2,3) mk wr' by (simp add: Let_def)
qed





lemmas int_defs = py_int_def py_int_str_def py_strip_def is_py_space_def is_digit_def
  digit_val_def unsigned_value_def max_str_digits_def

lemmas header_defs = headers_get_def lower_def lower_char_def

lemmas path_defs = file_path_def uploads_dir_def strftime_def pad2_def pad4_def
  digit_char_def

lemma ex_upload_path: "path (ex_upload v) = ''/api/upload''"
  by (simp add: ex_upload_def)

lemma ex_upload_header: "headers_get (headers (ex_upload v)) ''Content-Length'' = Some v"
  by (simp add: ex_upload_def header_defs)


lemma ex_length_2: "py_int (headers_get (headers (ex_upload ''2'')) ''Content-Length'') = Inr 2"
  by (simp add: ex_upload_header) (simp add: int_defs)

lemma ex_length_5: "py_int (headers_get (headers (ex_upload ''5'')) ''Content-Length'') = Inr 5"
  by (simp add: ex_upload_header) (simp add: int_defs)

lemma ex_length_minus_1:
  "py_int (headers_get (headers (ex_upload ''-1'')) ''Content-Length'') = Inr (- 1)"
  by (simp add: ex_upload_header) (simp add: int_defs)

lemma ex_no_length_path: "path ex_no_length = ''/api/upload''"
  by (simp add: ex_no_length_def)

lemma ex_no_length_header: "headers_get (headers ex_no_length) ''Content-Length'' = None"
  by (simp add: ex_no_length_def header_defs)

lemma ex_path: "file_path (strftime ex_now) = ''uploads/informe_20240309_140507.jpg''"
  by (simp add: ex_now_def path_defs)

lemma ex_world_usable: "uploads_usable now (ex_world stream eof)"
  by (simp add: uploads_usable_def ex_world_def)

lemma ex_world_allocatable: "0 \<le> n \<Longrightarrow> n \<le> 4096 \<Longrightarrow> allocatable n (ex_world stream eof)"
  by (simp add: allocatable_def ssize_max_value ex_world_def)

text \<open>The separator \<open>0x1F\<close> after the digits is not stripped: the conversion raises.\<close>

lemma unit_separator_not_stripped: "py_int_str (''3'' @ [CHR 0x1F]) = Inl ValueError"
  by (simp add: int_defs)

subsection \<open>Routing\<close>



text \<open>
  C8. A GET request whose path is exactly \<^verbatim>\<open>/\<close> reaches static file serving with the
  path \<^verbatim>\<open>/index.html\<close>, so it is served what a GET of \<^verbatim>\<open>/index.html\<close> is served.
\<close>

theorem get_root_is_index:
  assumes "path req = ''/''"
  shows "do_GET base_do_GET req w = base_do_GET (req\<lparr>path := ''/index.html''\<rparr>) w
         \<and> do_GET base_do_GET req w = do_GET base_do_GET (req\<lparr>path := ''/index.html''\<rparr>) w"
  using assms by (simp add: do_GET_def)

theorem get_root_is_index_witness:
  "path \<lparr>path = ''/'', headers = []\<rparr> = ''/''
   \<and> do_GET (\<lambda>r w. path r) \<lparr>path = ''/'', headers = []\<rparr> (ex_world [] False) = ''/index.html''
   \<and> do_GET (\<lambda>r w. path r) \<lparr>path = ''/'', headers = []\<rparr> (ex_world [] False)
       = do_GET (\<lambda>r w. path r) \<lparr>path = ''/index.html'', headers = []\<rparr> (ex_world [] False)"
  using get_root_is_index
    [of "\<lparr>path = ''/'', headers = []\<rparr>" "\<lambda>r w. path r" "ex_world [] False"]
  by (simp add: do_GET_def)

subsection \<open>A missing or unparsable length\<close>

text \<open>
  C9. When the \<^verbatim>\<open>Content-Length\<close> header of a POST to \<^verbatim>\<open>/api/upload\<close> is missing or
  cannot be converted, the conversion raises before anything is read, created or
  written: the call ends in an exception and the file system, like the rest of the
  world, is unchanged.
\<close>

theorem bad_length_changes_nothing:
  assumes "path req = ''/api/upload''"
    and "headers_get (headers req) ''Content-Length'' = None
         \<or> (\<exists>s e. headers_get (headers req) ''Content-Length'' = Some s
                  \<and> py_int_str s = Inl e)"
  shows "(\<exists>e. fst (do_POST now req w) = Raised e)
         \<and> fs (snd (do_POST now req w)) = fs w \<and> snd (do_POST now req w) = w"
proof -
  from assms(2) obtain e where "py_int (headers_get (headers req) ''Content-Length'') = Inl e"
    by (auto simp: py_int_def)
  with assms(1) have "do_POST now req w = (Raised e, w)"
    by (rule do_POST_bad_length)
  then show ?thesis by simp
qed

theorem bad_length_changes_nothing_witness:
  "path ex_no_length = ''/api/upload''
   \<and> headers_get (headers ex_no_length) ''Content-Length'' = None
   \<and> fs (snd (do_POST ex_now ex_no_length (ex_world ''abc'' False))) = fs (ex_world ''abc'' False)
   \<and> snd (do_POST ex_now ex_no_length (ex_world ''abc'' False)) = ex_world ''abc'' False"
proof -
  have p: "path ex_no_length = ''/api/upload''"
    by (rule ex_no_length_path)
  have h: "headers_get (headers ex_no_length) ''Content-Length'' = None"
    by (rule ex_no_length_header)
  from bad_length_changes_nothing [OF p disjI1 [OF h], of ex_now "ex_world ''abc'' False"] p h
  show ?thesis by simp
qed

text \<open>
  C2, as the code has it. A POST to \<^verbatim>\<open>/api/upload\<close> whose \<^verbatim>\<open>Content-Length\<close> header is
  missing ends in \<^verbatim>\<open>TypeError\<close>, and one whose header cannot be converted ends in
  \<^verbatim>\<open>ValueError\<close>; the handler sends no response, so no 404 either.
\<close>

theorem bad_length_raises:
  assumes "path req = ''/api/upload''"
    and "headers_get (headers req) ''Content-Length'' = None
         \<or> (\<exists>s e. headers_get (headers req) ''Content-Length'' = Some s
                  \<and> py_int_str s = Inl e)"
  shows "fst (do_POST now req w) =
           Raised (case headers_get (headers req) ''Content-Length'' of
                     None \<Rightarrow> TypeError
                   | Some s \<Rightarrow> ValueError)
         \<and> \<not> responded_with 404 (fst (do_POST now req w))"
proof -
  let ?v = "headers_get (headers req) ''Content-Length''"
  have "py_int ?v = Inl (case ?v of None \<Rightarrow> TypeError | Some s \<Rightarrow> ValueError)"
    using assms(2) by (auto simp: py_int_def dest: py_int_str_error)
  with assms(1) show ?thesis
    by (simp add: do_POST_bad_length)
qed

theorem bad_length_raises_witness:
  "path (ex_upload ''12a'') = ''/api/upload''
   \<and> headers_get (headers (ex_upload ''12a'')) ''Content-Length'' = Some ''12a''
   \<and> py_int_str ''12a'' = Inl ValueError
   \<and> fst (do_POST ex_now (ex_upload ''12a'') (ex_world ''abc'' False)) = Raised ValueError"
proof -
  have p: "path (ex_upload ''12a'') = ''/api/upload''"
    by (rule ex_upload_path)
  have h: "headers_get (headers (ex_upload ''12a'')) ''Content-Length'' = Some ''12a''"
    by (rule ex_upload_header)
  have v: "py_int_str ''12a'' = Inl ValueError"
    by (simp add: int_defs)
  have "headers_get (headers (ex_upload ''12a'')) ''Content-Length'' = None
        \<or> (\<exists>s e. headers_get (headers (ex_upload ''12a'')) ''Content-Length'' = Some s
                 \<and> py_int_str s = Inl e)"
    using h v by blast
  from bad_length_raises [OF p this, of ex_now "ex_world ''abc'' False"] p h v
  show ?thesis by simp
qed

text \<open>
  The claim C2 as it was written fails: without a \<^verbatim>\<open>Content-Length\<close> header the
  answer is not a 404.
\<close>

theorem missing_length_is_not_404:
  "path ex_no_length = ''/api/upload''
   \<and> headers_get (headers ex_no_length) ''Content-Length'' = None
   \<and> \<not> responded_with 404 (fst (do_POST ex_now ex_no_length (ex_world ''abc'' False)))"
  by (simp add: ex_no_length_path ex_no_length_header do_POST_def py_int_def)

subsection \<open>A successful upload\<close>




text \<open>
  C10, as the code has it. With a declared length \<open>n\<close> that is not negative, a
  stream that holds at least \<open>n\<close> bytes and a buffer of \<open>n\<close> bytes to be had, the
  handler takes exactly the first \<open>n\<close> bytes off the stream and writes exactly
  those to the file, whatever follows them on the stream; the system must let the
  upload through.
\<close>

theorem upload_takes_declared_length:
  assumes "path req = ''/api/upload''"
    and "py_int (headers_get (headers req) ''Content-Length'') = Inr n"
    and "0 \<le> n" and "nat n \<le> length (rfile w)"
    and "allocatable n w"
    and "uploads_usable now w"
  shows "fs (snd (do_POST now req w)) (file_path (strftime now))
           = Some (File (take (nat n) (rfile w)))
         \<and> length (take (nat n) (rfile w)) = nat n
         \<and> rfile (snd (do_POST now req w)) = drop (nat n) (rfile w)"
proof -
  have "rfile_read n w = Returns (take (nat n) (rfile w), w\<lparr>rfile := drop (nat n) (rfile w)\<rparr>)"
    using assms(3,4,5) by (rule rfile_read_prefix)
  from do_POST_upload [OF assms(1,2) this assms(6)] assms(4) show ?thesis
    by simp
qed

theorem upload_takes_declared_length_witness:
  "path (ex_upload ''2'') = ''/api/upload''
   \<and> py_int (headers_get (headers (ex_upload ''2'')) ''Content-Length'') = Inr 2
   \<and> (0::int) \<le> 2 \<and> nat 2 \<le> length (rfile (ex_world ''abcde'' False))
   \<and> allocatable 2 (ex_world ''abcde'' False)
   \<and> uploads_usable ex_now (ex_world ''abcde'' False)
   \<and> fs (snd (do_POST ex_now (ex_upload ''2'') (ex_world ''abcde'' False)))
        ''uploads/informe_20240309_140507.jpg'' = Some (File ''ab'')
   \<and> rfile (snd (do_POST ex_now (ex_upload ''2'') (ex_world ''abcde'' False))) = ''cde''"
proof -
  have n: "nat 2 \<le> length (rfile (ex_world ''abcde'' False))"
    by (simp add: ex_world_def)
  have z: "(0::int) \<le> 2"
    by simp
  have a: "allocatable 2 (ex_world ''abcde'' False)"
    by (rule ex_world_allocatable) simp_all
  from upload_takes_declared_length
    [OF ex_upload_path ex_length_2 z n a ex_world_usable, of ex_now] n a
  show ?thesis
    by (simp add: ex_upload_path ex_length_2 ex_world_usable ex_path) (simp add: ex_world_def)
qed

text \<open>
  The claim C10 as it was written fails for a stream that ends early and for a
  negative length: with five bytes declared and three sent before the peer closes,
  three bytes are written; with \<open>-1\<close> declared, the whole stream is written.
\<close>

theorem upload_short_stream:
  "py_int (headers_get (headers (ex_upload ''5'')) ''Content-Length'') = Inr 5
   \<and> responded_with 200 (fst (do_POST ex_now (ex_upload ''5'') (ex_world ''abc'' True)))
   \<and> fs (snd (do_POST ex_now (ex_upload ''5'') (ex_world ''abc'' True)))
        (file_path (strftime ex_now)) = Some (File ''abc'')
   \<and> py_int (headers_get (headers (ex_upload ''-1'')) ''Content-Length'') = Inr (- 1)
   \<and> fs (snd (do_POST ex_now (ex_upload ''-1'') (ex_world ''abc'' True)))
        (file_path (strftime ex_now)) = Some (File ''abc'')"
proof -
  have r5: "rfile_read 5 (ex_world ''abc'' True) = Returns (''abc'', ex_world [] True)"
    by (simp add: rfile_read_def ssize_max_def bytes_header_def ex_world_def)
  have r1: "rfile_read (- 1) (ex_world ''abc'' True) = Returns (''abc'', ex_world [] True)"
    by (simp add: rfile_read_def ssize_max_def bytes_header_def ex_world_def)
  note a = do_POST_upload [OF ex_upload_path ex_length_5 r5 ex_world_usable, of ex_now]
  note b = do_POST_upload [OF ex_upload_path ex_length_minus_1 r1 ex_world_usable, of ex_now]
  show ?thesis
    by (simp add: a b ex_length_5 ex_length_minus_1 success_def)
qed

subsection \<open>Two uploads in one second\<close>



section \<open>The storage schema\<close>

subsection \<open>Creating the tables\<close>

lemma lower_churches: "lower ''churches'' = ''churches''"
  by (simp add: lower_def lower_char_def)

lemma lower_reports: "lower ''reports'' = ''reports''"
  by (simp add: lower_def lower_char_def)

lemma find_table_append:
  "find_table (db @ xs) name =
     (case find_table db name of None \<Rightarrow> find_table xs name | Some e \<Rightarrow> Some e)"
  by (induction db) (auto simp: find_table_def)

lemma create_table_if_not_exists:
  "create_table True td db =
     Inr (if find_table db (td_name td) = None
          then db @ [(td_name td, \<lparr>tdef = td, rows = [], seq = 0\<rparr>)] else db)"
  by (simp add: create_table_def split: option.splits)

lemma churches_name: "td_name churches_def = ''churches''"
  by (simp add: churches_def_def)

lemma reports_name: "td_name reports_def = ''reports''"
  by (simp add: reports_def_def)

lemma find_reports_after_churches:
  "find_table (db @ [(''churches'', t)]) ''reports'' = find_table db ''reports''"
  by (simp add: find_table_append split: option.splits)
    (simp add: find_table_def lower_churches lower_reports)

lemma setup_database_eq:
  "setup_database db =
     Inr ((db @ (if find_table db ''churches'' = None
                 then [(''churches'', \<lparr>tdef = churches_def, rows = [], seq = 0\<rparr>)] else []))
          @ (if find_table db ''reports'' = None
             then [(''reports'', \<lparr>tdef = reports_def, rows = [], seq = 0\<rparr>)] else []))"
  by (simp add: setup_database_def create_table_if_not_exists churches_name reports_name
      find_reports_after_churches)

lemma setup_database_keeps:
  assumes "setup_database db = Inr db'" and "map_of db name = Some t"
  shows "map_of db' name = Some t"
  using assms by (auto simp: setup_database_eq map_add_def split: option.splits)

lemma find_table_here: "find_table [(name, t)] name = Some (name, t)"
  by (simp add: find_table_def)

lemma setup_database_has_tables:
  assumes "setup_database db = Inr db'"
  shows "find_table db' ''churches'' \<noteq> None \<and> find_table db' ''reports'' \<noteq> None"
proof -
  have here: "find_table (xs @ [(name, t)] @ ys) name \<noteq> None" for xs ys name t
    by (auto simp: find_table_def find_None_iff)
  show ?thesis
  proof (cases "find_table db ''churches''")
    case None
    then have "\<exists>t ys. db' = db @ [(''churches'', t)] @ ys"
      using assms by (auto simp: setup_database_eq)
    then have c: "find_table db' ''churches'' \<noteq> None"
      using here by blast
    have "find_table db' ''reports'' \<noteq> None"
    proof (cases "find_table db ''reports''")
      case None
      then have "\<exists>xs t. db' = xs @ [(''reports'', t)] @ []"
        using assms by (auto simp: setup_database_eq)
      then show ?thesis
        using here by blast
    next
      case (Some e)
      then show ?thesis
        using assms by (auto simp: setup_database_eq find_table_append)
    qed
    with c show ?thesis by simp
  next
    case (Some e)
    then have c: "find_table db' ''churches'' \<noteq> None"
      using assms by (auto simp: setup_database_eq find_table_append)
    have "find_table db' ''reports'' \<noteq> None"
    proof (cases "find_table db ''reports''")
      case None
      then have "\<exists>xs t. db' = xs @ [(''reports'', t)] @ []"
        using assms Some by (auto simp: setup_database_eq)
      then show ?thesis
        using here by blast
    next
      case (Some e')
      then show ?thesis
        using assms by (auto simp: setup_database_eq find_table_append)
    qed
    with c show ?thesis by simp
  qed
qed

lemma setup_database_fixpoint:
  assumes "find_table db ''churches'' \<noteq> None" and "find_table db ''reports'' \<noteq> None"
  shows "setup_database db = Inr db"
  using assms by (simp add: setup_database_eq)

lemma setup_database_again:
  assumes "setup_database db = Inr db'"
  shows "setup_database db' = Inr db'"
  using setup_database_has_tables [OF assms] by (simp add: setup_database_fixpoint)

lemma setup_database_times_Suc: "setup_database_times (Suc n) db = setup_database db"
proof (induction n arbitrary: db)
  case 0
  show ?case by (simp add: setup_database_eq)
next
  case (Suc n)
  obtain db' where first: "setup_database db = Inr db'"
    by (simp add: setup_database_eq)
  have "setup_database_times (Suc (Suc n)) db = setup_database_times (Suc n) db'"
    using first by simp
  also have "\<dots> = setup_database db'"
    by (rule Suc.IH)
  also have "\<dots> = Inr db'"
    using first by (rule setup_database_again)
  finally show ?case
    using first by simp
qed

subsection \<open>The declarations in every reachable state\<close>

lemma map_of_table_defs: "map_of (table_defs db) name = map_option tdef (map_of db name)"
  by (induction db) (auto simp: table_defs_def)

lemma table_defs_add_row: "table_defs (map (add_row name r key) db) = table_defs db"
  by (induction db) (auto simp: table_defs_def add_row_def)

text \<open>What an accepted insert has passed, and what it leaves.\<close>

lemma insert_into_accepted:
  assumes "insert_into conn now tname vals db = Inr db'"
  shows "\<exists>e key r. find_table db tname = Some e
    \<and> key_value (library conn) (snd e) vals = Inr key
    \<and> r = map (fill_column (library conn) now key vals) (td_columns (tdef (snd e)))
    \<and> list_all (not_null_ok r) (td_columns (tdef (snd e)))
    \<and> (foreign_keys conn \<longrightarrow> list_all (fk_ok db r) (td_foreign_keys (tdef (snd e))))
    \<and> db' = map (add_row (fst e) r key) db"
proof -
  from assms obtain e where e: "find_table db tname = Some e"
    by (cases "find_table db tname") (auto simp: insert_into_def split: if_splits)
  from assms e obtain key where key: "key_value (library conn) (snd e) vals = Inr key"
    by (cases "key_value (library conn) (snd e) vals")
      (auto simp: insert_into_def split: if_splits)
  from assms e key show ?thesis
    by (auto simp: insert_into_def Let_def split: if_splits)
qed

lemma table_defs_insert_into:
  "insert_into conn now tname vals db = Inr db' \<Longrightarrow> table_defs db' = table_defs db"
  using insert_into_accepted [of conn now tname vals db db']
  by (auto simp: table_defs_add_row)

text \<open>A store with the two declared tables, spelled out.\<close>

lemma declared_form:
  assumes "table_defs db = [(''churches'', churches_def), (''reports'', reports_def)]"
  obtains tc tr where "db = [(''churches'', tc), (''reports'', tr)]"
    and "tdef tc = churches_def" and "tdef tr = reports_def"
proof -
  from assms obtain e1 e2 where db: "db = [e1, e2]"
    by (auto simp: table_defs_def)
  with assms have "fst e1 = ''churches''" "tdef (snd e1) = churches_def"
    "fst e2 = ''reports''" "tdef (snd e2) = reports_def"
    by (simp_all add: table_defs_def)
  then have "db = [(''churches'', snd e1), (''reports'', snd e2)]"
    using db by (metis prod.collapse)
  then show ?thesis
    using \<open>tdef (snd e1) = churches_def\<close> \<open>tdef (snd e2) = reports_def\<close> by (rule that)
qed

lemma find_table_declared:
  "find_table [(''churches'', tc), (''reports'', tr)] name =
     (if lower name = ''churches'' then Some (''churches'', tc)
      else if lower name = ''reports'' then Some (''reports'', tr)
      else None)"
  by (simp add: find_table_def lower_churches lower_reports)

lemma table_defs_setup_database:
  assumes "setup_database db = Inr db'"
    and "table_defs db = [] \<or> table_defs db = [(''churches'', churches_def), (''reports'', reports_def)]"
  shows "table_defs db' = [(''churches'', churches_def), (''reports'', reports_def)]"
proof -
  from assms(2) show ?thesis
  proof
    assume "table_defs db = []"
    then have "db = []"
      by (simp add: table_defs_def)
    with assms(1) show ?thesis
      by (auto simp: setup_database_eq table_defs_def find_table_def)
  next
    assume d: "table_defs db = [(''churches'', churches_def), (''reports'', reports_def)]"
    then obtain tc tr where "db = [(''churches'', tc), (''reports'', tr)]"
      by (rule declared_form)
    then have "find_table db ''churches'' \<noteq> None" and "find_table db ''reports'' \<noteq> None"
      by (simp_all add: find_table_declared lower_churches lower_reports)
    then have "setup_database db = Inr db"
      by (rule setup_database_fixpoint)
    with assms(1) d show ?thesis
      by simp
  qed
qed

lemma table_defs_apply_op:
  assumes "table_defs db = [] \<or> table_defs db = [(''churches'', churches_def), (''reports'', reports_def)]"
  shows "table_defs (apply_op db op) = [] \<or>
         table_defs (apply_op db op) = [(''churches'', churches_def), (''reports'', reports_def)]"
proof (cases "exec_op op db")
  case (Inl e)
  with assms show ?thesis by (simp add: apply_op_def)
next
  case (Inr db')
  then have a: "apply_op db op = db'"
    by (simp add: apply_op_def)
  show ?thesis
  proof (cases op)
    case SetupDatabase
    with Inr have "setup_database db = Inr db'"
      by (simp add: exec_op_def)
    from table_defs_setup_database [OF this assms] a show ?thesis
      by simp
  next
    case (InsertInto conn now tname vals)
    with Inr have "insert_into conn now tname vals db = Inr db'"
      by (simp add: exec_op_def)
    from table_defs_insert_into [OF this] assms a show ?thesis
      by simp
  qed
qed

lemma run_ops_snoc: "run_ops (ops @ [op]) = apply_op (run_ops ops) op"
  by (simp add: run_ops_def)

lemma table_defs_run_ops:
  "table_defs (run_ops ops) = [] \<or>
   table_defs (run_ops ops) = [(''churches'', churches_def), (''reports'', reports_def)]"
proof (induction ops rule: rev_induct)
  case Nil
  show ?case by (simp add: run_ops_def table_defs_def)
next
  case (snoc op ops)
  from table_defs_apply_op [OF snoc.IH, of op] show ?case
    by (simp add: run_ops_snoc)
qed

text \<open>
  C4. \<^verbatim>\<open>setup_database\<close> is idempotent. From any state of the store, a call raises no
  error, \<open>N \<ge> 1\<close> calls in a row leave what one call leaves, and every table that
  was there keeps its declaration, its rows and its counter. From a state the store
  can reach, the result holds exactly the two tables \<^verbatim>\<open>churches\<close> and \<^verbatim>\<open>reports\<close> with
  the declared columns.
\<close>

theorem setup_database_idempotent:
  assumes "1 \<le> N"
  shows "\<exists>db'. setup_database db = Inr db'
           \<and> setup_database_times N db = Inr db'
           \<and> (\<forall>name t. map_of db name = Some t \<longrightarrow> map_of db' name = Some t)
           \<and> (db = run_ops ops \<longrightarrow>
                table_defs db' = [(''churches'', churches_def), (''reports'', reports_def)])"
proof -
  obtain db' where one: "setup_database db = Inr db'"
    by (simp add: setup_database_eq)
  from assms obtain n where "N = Suc n"
    by (cases N) auto
  then have many: "setup_database_times N db = Inr db'"
    using one by (simp only: setup_database_times_Suc)
  have keeps: "\<forall>name t. map_of db name = Some t \<longrightarrow> map_of db' name = Some t"
    using one by (blast intro: setup_database_keeps)
  have "table_defs db' = [(''churches'', churches_def), (''reports'', reports_def)]"
    if "db = run_ops ops"
    using table_defs_setup_database [OF one] table_defs_run_ops [of ops] that by simp
  with one many keeps show ?thesis
    by blast
qed

lemma ex_ops_churches:
  "map_of (run_ops (take 2 ex_ops)) ''churches'' =
     Some \<lparr>tdef = churches_def,
           rows = [[(''id'', SqlInteger 1), (''name'', SqlText ''Central''),
                    (''city'', SqlText ''Asuncion''), (''pastor'', SqlText ''Juan''),
                    (''phone'', SqlNull), (''created_at'', SqlText ex_time)]],
           seq = 1\<rparr>"
  by code_simp

theorem setup_database_idempotent_witness:
  "(1::nat) \<le> 3
   \<and> (\<exists>db'. setup_database_times 3 (run_ops (take 2 ex_ops)) = Inr db'
         \<and> table_rows db' ''churches'' =
             [[(''id'', SqlInteger 1), (''name'', SqlText ''Central''),
               (''city'', SqlText ''Asuncion''), (''pastor'', SqlText ''Juan''),
               (''phone'', SqlNull), (''created_at'', SqlText ex_time)]]
         \<and> table_defs db' = [(''churches'', churches_def), (''reports'', reports_def)])"
proof -
  have n: "(1::nat) \<le> 3"
    by simp
  from setup_database_idempotent [OF n, of "run_ops (take 2 ex_ops)" "take 2 ex_ops"]
  obtain db' where "setup_database_times 3 (run_ops (take 2 ex_ops)) = Inr db'"
    and "map_of db' ''churches'' = map_of (run_ops (take 2 ex_ops)) ''churches''"
    and "table_defs db' = [(''churches'', churches_def), (''reports'', reports_def)]"
    using ex_ops_churches by auto
  then show ?thesis
    by (auto simp: table_rows_def ex_ops_churches)
qed

subsection \<open>Rows of the two tables\<close>

lemma table_rows_setup_database:
  "setup_database db = Inr db' \<Longrightarrow> table_rows db' name = table_rows db name"
  by (auto simp: setup_database_eq table_rows_def map_add_def split: option.splits if_splits)

lemma integer_if_exact_not_null: "integer_if_exact x \<noteq> SqlNull"
  by (cases x) simp_all

lemma numeric_value_not_null: "numeric_value n \<noteq> SqlNull"
  by (cases n) (simp_all add: integer_if_exact_not_null)

lemma real_value_not_null: "real_value n \<noteq> SqlNull"
  by (cases n) simp_all

text \<open>Type affinity neither makes nor removes a \<^verbatim>\<open>NULL\<close>.\<close>

lemma apply_affinity_null: "apply_affinity lib a v = SqlNull \<longleftrightarrow> v = SqlNull"
  by (cases v; cases a)
    (simp_all add: integer_if_exact_not_null numeric_value_not_null real_value_not_null
      split: option.splits)

lemma map_of_fill_column:
  "map_of (map (fill_column lib now key vals) cols) name =
     map_option (\<lambda>c. snd (fill_column lib now key vals c)) (find (\<lambda>c. col_name c = name) cols)"
  by (induction cols) (auto simp: fill_column_def)

lemma fill_plain_column:
  "snd (fill_column lib now key vals (plain_column name type nn)) =
     (case given vals name of
        None \<Rightarrow> SqlNull
      | Some v \<Rightarrow> apply_affinity lib (affinity_of type) v)"
  by (simp add: fill_column_def plain_column_def split: option.splits)


text \<open>What a new row of \<^verbatim>\<open>reports\<close> holds in the church and amount columns.\<close>

lemma reports_row_given:
  assumes "c = ''church_id'' \<or> c = ''tithes'' \<or> c = ''offerings''
           \<or> c = ''national_contribution''"
  shows "lookup (map (fill_column lib now key vals) (td_columns reports_def)) c =
           (case given vals c of
              None \<Rightarrow> SqlNull
            | Some v \<Rightarrow>
                apply_affinity lib
                  (affinity_of (if c = ''church_id'' then ''INTEGER'' else ''REAL'')) v)"
proof -
  have "find (\<lambda>x. col_name x = c) (td_columns reports_def) = Some (plain_column c
          (if c = ''church_id'' then ''INTEGER'' else ''REAL'') True)"
    using assms
    by (elim disjE) (simp_all add: reports_def_def plain_column_def id_column_def)
  then show ?thesis
    by (simp add: lookup_def [of "map f xs" for f xs] map_of_fill_column fill_plain_column)
qed

lemma reports_row_provided:
  assumes "c = ''church_id'' \<or> c = ''tithes'' \<or> c = ''offerings''
           \<or> c = ''national_contribution''"
  shows "lookup (map (fill_column lib now key vals) (td_columns reports_def)) c \<noteq> SqlNull
         \<longleftrightarrow> provided vals c"
  by (simp add: reports_row_given [OF assms] provided_def apply_affinity_null
      split: option.splits)


lemma reports_row_not_null:
  "list_all (not_null_ok r) (td_columns reports_def) \<Longrightarrow>
   amounts_not_null r \<and> lookup r ''church_id'' \<noteq> SqlNull"
  by (simp add: reports_def_def plain_column_def id_column_def created_at_column_def
      not_null_ok_def amounts_not_null_def)

text \<open>An accepted insert into a store that holds the two declared tables.\<close>

lemma insert_into_declared:
  assumes "insert_into conn now tname vals [(''churches'', tc), (''reports'', tr)] = Inr db'"
    and "tdef tc = churches_def" and "tdef tr = reports_def"
  shows "(lower tname = ''churches'' \<and>
            (\<exists>r key. db' = [(''churches'', tc\<lparr>rows := rows tc @ [r], seq := max (seq tc) key\<rparr>),
                            (''reports'', tr)]))
         \<or> (lower tname = ''reports'' \<and>
            (\<exists>key. db' =
               [(''churches'', tc),
                (''reports'',
                 tr\<lparr>rows := rows tr @
                        [map (fill_column (library conn) now key vals) (td_columns reports_def)],
                     seq := max (seq tr) key\<rparr>)]
              \<and> list_all
                   (not_null_ok
                      (map (fill_column (library conn) now key vals) (td_columns reports_def)))
                   (td_columns reports_def)
              \<and> (foreign_keys conn \<longrightarrow>
                   list_all
                     (fk_ok [(''churches'', tc), (''reports'', tr)]
                        (map (fill_column (library conn) now key vals)
                           (td_columns reports_def)))
                     (td_foreign_keys reports_def))))"
proof -
  let ?db = "[(''churches'', tc), (''reports'', tr)]"
  from insert_into_accepted [OF assms(1)] obtain e key r
    where e: "find_table ?db tname = Some e"
      and r: "r = map (fill_column (library conn) now key vals) (td_columns (tdef (snd e)))"
      and nn: "list_all (not_null_ok r) (td_columns (tdef (snd e)))"
      and fk: "foreign_keys conn \<longrightarrow> list_all (fk_ok ?db r) (td_foreign_keys (tdef (snd e)))"
      and db': "db' = map (add_row (fst e) r key) ?db"
    by blast
  from e consider (churches) "lower tname = ''churches''" "e = (''churches'', tc)"
    | (reports) "lower tname = ''reports''" "e = (''reports'', tr)" "lower tname \<noteq> ''churches''"
    by (auto simp: find_table_declared split: if_splits)
  then show ?thesis
  proof cases
    case churches
    then have "db' = [(''churches'', tc\<lparr>rows := rows tc @ [r], seq := max (seq tc) key\<rparr>),
                      (''reports'', tr)]"
      by (simp add: db' add_row_def)
    with churches(1) show ?thesis
      by blast
  next
    case reports
    then have "db' = [(''churches'', tc),
                      (''reports'', tr\<lparr>rows := rows tr @ [r], seq := max (seq tr) key\<rparr>)]"
      by (simp add: db' add_row_def)
    moreover have "r = map (fill_column (library conn) now key vals) (td_columns reports_def)"
      using r reports(2) assms(3) by simp
    moreover have "list_all (not_null_ok r) (td_columns reports_def)"
      using nn reports(2) assms(3) by simp
    moreover have "foreign_keys conn \<longrightarrow> list_all (fk_ok ?db r) (td_foreign_keys reports_def)"
      using fk reports(2) assms(3) by simp
    ultimately show ?thesis
      using reports(1) by blast
  qed
qed

lemma insert_into_needs_table:
  "insert_into conn now tname vals db = Inr db' \<Longrightarrow> table_defs db \<noteq> []"
  using insert_into_accepted [of conn now tname vals db db']
  by (auto simp: table_defs_def find_table_def)

lemma table_rows_declared:
  "table_rows [(''churches'', tc), (''reports'', tr)] ''churches'' = rows tc"
  "table_rows [(''churches'', tc), (''reports'', tr)] ''reports'' = rows tr"
  by (simp_all add: table_rows_def)

subsection \<open>The amounts of a report\<close>

lemma amounts_apply_op:
  assumes "table_defs db = [] \<or> table_defs db = [(''churches'', churches_def), (''reports'', reports_def)]"
    and "list_all amounts_not_null (table_rows db ''reports'')"
  shows "list_all amounts_not_null (table_rows (apply_op db op) ''reports'')"
proof (cases "exec_op op db")
  case (Inl e)
  with assms(2) show ?thesis by (simp add: apply_op_def)
next
  case (Inr db')
  then have a: "apply_op db op = db'"
    by (simp add: apply_op_def)
  show ?thesis
  proof (cases op)
    case SetupDatabase
    with Inr have "setup_database db = Inr db'"
      by (simp add: exec_op_def)
    then have "table_rows db' ''reports'' = table_rows db ''reports''"
      by (rule table_rows_setup_database)
    with assms(2) a show ?thesis by simp
  next
    case (InsertInto conn now tname vals)
    with Inr have ins: "insert_into conn now tname vals db = Inr db'"
      by (simp add: exec_op_def)
    have "table_defs db = [(''churches'', churches_def), (''reports'', reports_def)]"
      using assms(1) insert_into_needs_table [OF ins] by simp
    then obtain tc tr where db: "db = [(''churches'', tc), (''reports'', tr)]"
      and tc: "tdef tc = churches_def" and tr: "tdef tr = reports_def"
      by (rule declared_form)
    from insert_into_declared [OF ins [unfolded db] tc tr] assms(2)
    have "list_all amounts_not_null (table_rows db' ''reports'')"
      by (auto simp: db table_rows_declared dest: reports_row_not_null)
    with a show ?thesis by simp
  qed
qed

lemma amounts_run_ops: "list_all amounts_not_null (table_rows (run_ops ops) ''reports'')"
proof (induction ops rule: rev_induct)
  case Nil
  show ?case by (simp add: run_ops_def table_rows_def)
next
  case (snoc op ops)
  from amounts_apply_op [OF table_defs_run_ops snoc.IH, of op] show ?case
    by (simp add: run_ops_snoc)
qed

lemma insert_null_amount_rejected:
  assumes "\<not> amounts_provided vals" and "lower tname = ''reports''"
  shows "\<exists>e. insert_into conn now tname vals (run_ops ops) = Inl e"
proof (cases "insert_into conn now tname vals (run_ops ops)")
  case (Inl e)
  then show ?thesis by blast
next
  case (Inr db')
  have "table_defs (run_ops ops) = [(''churches'', churches_def), (''reports'', reports_def)]"
    using table_defs_run_ops [of ops] insert_into_needs_table [OF Inr] by simp
  then obtain tc tr where db: "run_ops ops = [(''churches'', tc), (''reports'', tr)]"
    and tc: "tdef tc = churches_def" and tr: "tdef tr = reports_def"
    by (rule declared_form)
  from insert_into_declared [OF Inr [unfolded db] tc tr] assms(2) obtain key
    where "list_all
             (not_null_ok (map (fill_column (library conn) now key vals) (td_columns reports_def)))
             (td_columns reports_def)"
    by (auto simp: lower_churches)
  then have "amounts_not_null
               (map (fill_column (library conn) now key vals) (td_columns reports_def))"
    by (simp add: reports_row_not_null)
  then have "amounts_provided vals"
    by (simp add: amounts_not_null_def amounts_provided_def reports_row_provided)
  with assms(1) show ?thesis by simp
qed

text \<open>
  C7, as the code has it. In every state the store can reach, every row of
  \<^verbatim>\<open>reports\<close> has its tithes, offerings and national contribution present
  (\<^verbatim>\<open>NOT NULL\<close>), and an insert into \<^verbatim>\<open>reports\<close> (however the statement spells the
  names) that leaves one of them out or gives it as \<^verbatim>\<open>NULL\<close> is rejected. The
  declaration has no condition on the sign.
\<close>

theorem report_amounts_not_null:
  "list_all amounts_not_null (table_rows (run_ops ops) ''reports'')
   \<and> (\<not> amounts_provided vals \<longrightarrow> lower tname = ''reports'' \<longrightarrow>
        (\<exists>e. insert_into conn now tname vals (run_ops ops) = Inl e))"
  using amounts_run_ops [of ops] insert_null_amount_rejected [of vals tname conn now ops]
  by blast

lemma ex_ops_reports:
  "table_rows (run_ops ex_ops) ''reports'' =
     [[(''id'', SqlInteger 1), (''church_id'', SqlInteger 1), (''month'', SqlText ''2024-03''),
       (''tithes'', SqlReal (Finite 25)), (''offerings'', SqlReal (Finite 0)),
       (''national_contribution'', SqlReal (Finite 0)), (''bank_receipt'', SqlNull),
       (''deposit_date'', SqlNull), (''photo_path'', SqlNull),
       (''created_at'', SqlText ex_time)]]"
  by code_simp

lemma lower_REPORTS: "lower ''REPORTS'' = ''reports''"
  by (simp add: lower_def lower_char_def)

theorem report_amounts_not_null_witness:
  "table_rows (run_ops ex_ops) ''reports'' \<noteq> []
   \<and> list_all amounts_not_null (table_rows (run_ops ex_ops) ''reports'')
   \<and> \<not> amounts_provided [(''church_id'', SqlInteger 1), (''month'', SqlText ''2024-03''),
                          (''TITHES'', SqlNull), (''offerings'', SqlReal (Finite 0)),
                          (''national_contribution'', SqlReal (Finite 0))]
   \<and> lower ''REPORTS'' = ''reports''
   \<and> (\<exists>e. insert_into ex_fk_conn ex_time ''REPORTS''
             [(''church_id'', SqlInteger 1), (''month'', SqlText ''2024-03''),
              (''TITHES'', SqlNull), (''offerings'', SqlReal (Finite 0)),
              (''national_contribution'', SqlReal (Finite 0))]
             (run_ops ex_ops) = Inl e)"
proof -
  let ?vals = "[(''church_id'', SqlInteger 1), (''month'', SqlText ''2024-03''),
                (''TITHES'', SqlNull), (''offerings'', SqlReal (Finite 0)),
                (''national_contribution'', SqlReal (Finite 0))]"
  have n: "\<not> amounts_provided ?vals"
    by (simp add: amounts_provided_def provided_def given_def lower_def lower_char_def)
  from report_amounts_not_null [of ex_ops ?vals "''REPORTS''" ex_fk_conn ex_time] n lower_REPORTS
  show ?thesis
    by (simp add: ex_ops_reports)
qed

text \<open>
  The claim C7 as it was written fails: with one church in the store and foreign
  keys enforced, a report with tithes of \<open>-1\<close> is accepted and stored.
\<close>

theorem negative_tithes_stored:
  "\<not> list_all amounts_non_negative
       (table_rows
          (run_ops [SetupDatabase,
                    InsertInto ex_fk_conn ex_time ''churches'' ex_church,
                    InsertInto ex_fk_conn ex_time ''reports''
                      (ex_report 1 (SqlReal (Finite (- 1))))])
          ''reports'')"
  by code_simp

subsection \<open>The church of a report\<close>














text \<open>
  The check belongs to the connection. On one that has not switched the setting on,
  which is how \<^verbatim>\<open>sqlite3.connect\<close> hands it out, the same store takes a report for
  church 999 while \<^verbatim>\<open>churches\<close> is empty; the source never switches it on, so the
  inserts of the program have to.
\<close>

lemma unchecked_on_default_connection:
  "table_rows
     (run_ops [SetupDatabase,
               InsertInto ex_conn ex_time ''reports'' (ex_report 999 (SqlReal (Finite 0)))])
     ''reports'' =
     [[(''id'', SqlInteger 1), (''church_id'', SqlInteger 999), (''month'', SqlText ''2024-03''),
       (''tithes'', SqlReal (Finite 0)), (''offerings'', SqlReal (Finite 0)),
       (''national_contribution'', SqlReal (Finite 0)), (''bank_receipt'', SqlNull),
       (''deposit_date'', SqlNull), (''photo_path'', SqlNull),
       (''created_at'', SqlText ex_time)]]
   \<and> table_rows
         (run_ops [SetupDatabase,
                   InsertInto ex_conn ex_time ''reports'' (ex_report 999 (SqlReal (Finite 0)))])
         ''churches'' = []"
  by code_simp

end
